theory Spec2Isabelle
  imports Main "HOL-Library.AList" "HOL-Library.Multiset"
begin

section \<open>Data model of the webhook server (cmd/webhook-server/main.go)\<close>

text \<open>
  Go strings and byte slices are sequences of bytes; a HOL \<open>char\<close> is one byte, so both
  are modelled as \<open>char list\<close>.
\<close>

type_synonym bytes = "char list"

text \<open>
  A Go \<open>map[string]string\<close> is modelled as the list of its entries. Indexing reads the
  entry of a key through \<open>map_of\<close>; insertion and deletion are \<open>AList.update\<close> and
  \<open>AList.delete\<close>; \<open>len\<close> is the length of the list.
\<close>

type_synonym gomap = "(string \<times> string) list"

text \<open>\<open>m[k]\<close> in Go: the value stored under \<open>k\<close>, the empty string when \<open>k\<close> is absent.\<close>

definition index_or_zero :: "gomap \<Rightarrow> string \<Rightarrow> string" where
  "index_or_zero m k = (case map_of m k of None \<Rightarrow> [] | Some v \<Rightarrow> v)"

text \<open>metav1.GroupVersionResource: a struct of three strings, compared field by field.\<close>

record GroupVersionResource =
  Group :: string
  Version :: string
  Resource :: string

text \<open>runtime.RawExtension, of which the code reads the field \<open>Raw\<close>.\<close>

record RawExtension =
  Raw :: bytes

text \<open>
  v1beta1.AdmissionRequest. The request's field \<open>Resource\<close> is named \<open>ResourceGVR\<close> here,
  since \<open>Resource\<close> is already the third field of the descriptor. Any further field of
  the Go struct lives in the record's extension.
\<close>

record AdmissionRequest =
  UID :: string
  ResourceGVR :: GroupVersionResource
  SubResource :: string
  Namespace :: string
  Operation :: string
  UserInfo :: string
  Object :: RawExtension
  OldObject :: RawExtension

text \<open>corev1.Container, corev1.PodSpec and corev1.Pod, with the fields the code reads.\<close>

record Container =
  Name :: string

record PodSpec =
  Containers :: "Container list"

record Pod =
  Annotations :: gomap
  Spec :: PodSpec

text \<open>
  Modelled from the spec: the struct \<open>patchOperation\<close> is declared in a file of the
  repository that is not part of the sources at hand. The spec describes it as an
  operation kind, a slash-delimited path and a value that may be absent.
\<close>

record patchOperation =
  Op :: string
  Path :: string
  Value :: "string option"

text \<open>
  A Go \<open>error\<close> made by \<open>errors.New\<close> or \<open>fmt.Errorf\<close> carries a message; the nil error
  is \<open>None\<close> of \<open>error option\<close>. A nil slice is the empty list.
\<close>

datatype error = errorString string

fun Error :: "error \<Rightarrow> string" where
  "Error (errorString s) = s"

definition errors_New :: "string \<Rightarrow> error" where
  "errors_New text = errorString text"

text \<open>\<open>fmt.Errorf(prefix + "%v", err)\<close>: the verb \<open>%v\<close> prints an error by its message.\<close>

definition fmt_Errorf_v :: "string \<Rightarrow> error \<Rightarrow> error" where
  "fmt_Errorf_v prefix err = errorString (prefix @ Error err)"

text \<open>
  What the function does besides returning: it writes one log line, and it calls the
  deserializer on the raw bytes.
\<close>

datatype event =
    LogPrintf string GroupVersionResource
  | DecodeCall bytes

section \<open>Library functions used by the code\<close>

text \<open>strings.HasPrefix and strings.TrimPrefix of the Go standard library.\<close>

definition HasPrefix :: "string \<Rightarrow> string \<Rightarrow> bool" where
  "HasPrefix s prefix = (length s \<ge> length prefix \<and> take (length prefix) s = prefix)"

definition TrimPrefix :: "string \<Rightarrow> string \<Rightarrow> string" where
  "TrimPrefix s prefix = (if HasPrefix s prefix then drop (length prefix) s else s)"

section \<open>The decision function\<close>

definition podResource :: GroupVersionResource where
  "podResource = \<lparr>Group = [], Version = ''v1'', Resource = ''pods''\<rparr>"

definition app_key :: string where
  "app_key = ''aic.4paradigm.com/app''"

definition computeunit_prefix :: string where
  "computeunit_prefix = ''aic.4paradigm.com/computeunit/''"

text \<open>
  The local variables of \<open>applySecurityDefaults\<close> once the pod is decoded. The working
  map \<open>containerComputeunitMap\<close> is a map of its own, allocated empty by the function;
  \<open>patches\<close> is declared as a nil slice and \<open>computeunitList\<close> as an empty one.
\<close>

record locals =
  pod :: Pod
  containerComputeunitMap :: gomap
  patches :: "patchOperation list"
  computeunitList :: "string list"

definition init_locals :: "Pod \<Rightarrow> locals" where
  "init_locals p =
     \<lparr>pod = p, containerComputeunitMap = [], patches = [], computeunitList = []\<rparr>"

text \<open>
  Body of the first loop, \<open>for k, v := range pod.Annotations\<close>: an annotation whose key
  starts with the compute-unit prefix is entered into the working map under the rest of
  the key.
\<close>

definition collect_step :: "string \<times> string \<Rightarrow> locals \<Rightarrow> locals" where
  "collect_step kv s =
     (case kv of (k, v) \<Rightarrow>
        if HasPrefix k computeunit_prefix then
          let containerName = TrimPrefix k computeunit_prefix
          in s\<lparr>containerComputeunitMap :=
                 AList.update containerName v (containerComputeunitMap s)\<rparr>
        else s)"

text \<open>
  Body of the second loop, \<open>for _, pod := range pod.Spec.Containers\<close>: a container whose
  name is in the working map has its value appended to \<open>computeunitList\<close> and its entry
  deleted from the working map.
\<close>

definition claim_step :: "Container \<Rightarrow> locals \<Rightarrow> locals" where
  "claim_step c s =
     (case map_of (containerComputeunitMap s) (Name c) of
        Some computeunit \<Rightarrow>
          s\<lparr>computeunitList := computeunitList s @ [computeunit],
            containerComputeunitMap := AList.delete (Name c) (containerComputeunitMap s)\<rparr>
      | None \<Rightarrow> s)"

text \<open>
  Go leaves the order in which \<open>range\<close> visits a map unspecified. The parameter
  \<open>range_order\<close> stands for the order the runtime picks in one run: it turns the map
  into the sequence of entries the loop sees. The state after both loops:
\<close>

definition run_loops :: "(gomap \<Rightarrow> (string \<times> string) list) \<Rightarrow> Pod \<Rightarrow> locals" where
  "run_loops range_order p =
     (let s0 = init_locals p;
          s1 = fold collect_step (range_order (Annotations (pod s0))) s0
      in fold claim_step (Containers (Spec (pod s1))) s1)"

text \<open>
  An iteration order is legal when it visits every entry of the map exactly once, which
  is what Go guarantees for a map that the loop body does not change.
\<close>

definition legal_order :: "(gomap \<Rightarrow> (string \<times> string) list) \<Rightarrow> bool" where
  "legal_order range_order = (\<forall>m. mset (range_order m) = mset m)"

text \<open>
  The function itself. \<open>Decode\<close> stands for \<open>universalDeserializer.Decode\<close> into a
  \<open>corev1.Pod\<close>, which is declared outside this file. The result is the list of events,
  the returned patch list and the returned error.
\<close>

definition applySecurityDefaults ::
  "(gomap \<Rightarrow> (string \<times> string) list) \<Rightarrow> (bytes \<Rightarrow> error + Pod) \<Rightarrow>
     'a AdmissionRequest_scheme \<Rightarrow> event list \<times> patchOperation list \<times> error option" where
  "applySecurityDefaults range_order Decode req =
     (if ResourceGVR req \<noteq> podResource then
        ([LogPrintf ''expect resource to be %s'' podResource], [], None)
      else
        let raw = Raw (Object req) in
        case Decode raw of
          Inl err \<Rightarrow>
            ([DecodeCall raw], [],
             Some (fmt_Errorf_v ''could not deserialize pod object: '' err))
        | Inr p \<Rightarrow>
            if index_or_zero (Annotations p) app_key \<noteq> ''true'' then
              ([DecodeCall raw], [], None)
            else
              let s = run_loops range_order p in
              if length (containerComputeunitMap s) \<noteq> 0 then
                ([DecodeCall raw], [], Some (errors_New ''unexpected computeunit''))
              else ([DecodeCall raw], patches s, None))"

section \<open>Server bootstrap\<close>

definition tlsDir :: string where
  "tlsDir = ''/run/secrets/tls''"

definition tlsCertFile :: string where
  "tlsCertFile = ''tls.crt''"

definition tlsKeyFile :: string where
  "tlsKeyFile = ''tls.key''"

text \<open>
  filepath.Join of the Go standard library on a Unix system: empty elements are dropped,
  the others are joined with a slash, and the result is cleaned. Clean splits the path at
  the slashes, drops empty and \<open>.\<close> elements, lets \<open>..\<close> remove the element before it (at
  the root it is dropped, at the start of a relative path it stays), and returns \<open>.\<close> for
  an empty result.
\<close>

fun split_slash :: "string \<Rightarrow> string \<Rightarrow> string list" where
  "split_slash acc [] = [rev acc]"
| "split_slash acc (c # cs) =
     (if c = CHR ''/'' then rev acc # split_slash [] cs else split_slash (c # acc) cs)"

fun join_slash :: "string list \<Rightarrow> string" where
  "join_slash [] = []"
| "join_slash [e] = e"
| "join_slash (e # e' # es) = e @ ''/'' @ join_slash (e' # es)"

fun clean_elems :: "bool \<Rightarrow> string list \<Rightarrow> string list \<Rightarrow> string list" where
  "clean_elems rooted [] out = rev out"
| "clean_elems rooted (e # es) out =
     (if e = [] \<or> e = ''.'' then clean_elems rooted es out
      else if e = ''..'' then
        (case out of
           [] \<Rightarrow> if rooted then clean_elems rooted es [] else clean_elems rooted es [e]
         | prev # out' \<Rightarrow>
             if prev = ''..'' then clean_elems rooted es (e # out)
             else clean_elems rooted es out')
      else clean_elems rooted es (e # out))"

definition Clean :: "string \<Rightarrow> string" where
  "Clean path =
     (case path of
        [] \<Rightarrow> ''.''
      | c # _ \<Rightarrow>
          let rooted = (c = CHR ''/'');
              body = join_slash (clean_elems rooted (split_slash [] path) [])
          in if rooted then CHR ''/'' # body
             else if body = [] then ''.'' else body)"

definition filepath_Join :: "string list \<Rightarrow> string" where
  "filepath_Join elem =
     (let es = filter (\<lambda>e. e \<noteq> []) elem
      in if es = [] then [] else Clean (join_slash es))"

text \<open>
  The function type that \<open>admitFuncHandler\<close> wraps into an http.Handler, and a
  \<open>http.ServeMux\<close> as the list of its registrations. \<open>Handle\<close> panics on an empty
  pattern and on a pattern that is registered already.
\<close>

type_synonym admitFunc =
  "AdmissionRequest \<Rightarrow> event list \<times> patchOperation list \<times> error option"

datatype handler = admitFuncHandler admitFunc

type_synonym ServeMux = "(string \<times> handler) list"

definition NewServeMux :: ServeMux where
  "NewServeMux = []"

definition Handle :: "ServeMux \<Rightarrow> string \<Rightarrow> handler \<Rightarrow> ServeMux option" where
  "Handle mux pattern h =
     (if pattern = [] \<or> pattern \<in> fst ` set mux then None
      else Some (mux @ [(pattern, h)]))"

record Server =
  Addr :: string
  Handler :: ServeMux

text \<open>
  How the process ends: \<open>log.Fatal\<close> prints the error and exits with status 1; a panic
  aborts; \<open>Serving\<close> means that \<open>ListenAndServeTLS\<close> does not return, the server keeps
  serving.
\<close>

datatype process_end = Serving | Fatal error | Panic

text \<open>
  \<open>main\<close>. The parameter \<open>ListenAndServeTLS\<close> stands for the method of \<open>http.Server\<close>
  with the certificate and key file as arguments: it returns the error with which the
  listener stopped or could not start, or nothing while the server runs.
\<close>

definition main ::
  "(gomap \<Rightarrow> (string \<times> string) list) \<Rightarrow> (bytes \<Rightarrow> error + Pod) \<Rightarrow>
     (Server \<Rightarrow> string \<Rightarrow> string \<Rightarrow> error option) \<Rightarrow> process_end" where
  "main range_order Decode ListenAndServeTLS =
     (let certPath = filepath_Join [tlsDir, tlsCertFile];
          keyPath = filepath_Join [tlsDir, tlsKeyFile]
      in case Handle NewServeMux ''/mutate''
                (admitFuncHandler (applySecurityDefaults range_order Decode)) of
           None \<Rightarrow> Panic
         | Some mux \<Rightarrow>
             (let server = \<lparr>Addr = '':8443'', Handler = mux\<rparr>
              in (case ListenAndServeTLS server certPath keyPath of
                    None \<Rightarrow> Serving
                  | Some err \<Rightarrow> Fatal err)))"

section \<open>Inputs used as examples\<close>

definition example_request :: "string \<Rightarrow> GroupVersionResource \<Rightarrow> bytes \<Rightarrow> AdmissionRequest" where
  "example_request uid gvr raw =
     \<lparr>UID = uid, ResourceGVR = gvr, SubResource = [], Namespace = ''default'',
      Operation = ''CREATE'', UserInfo = ''admin'',
      Object = \<lparr>Raw = raw\<rparr>, OldObject = \<lparr>Raw = []\<rparr>\<rparr>"

definition example_pod :: "gomap \<Rightarrow> string list \<Rightarrow> Pod" where
  "example_pod annotations names =
     \<lparr>Annotations = annotations,
      Spec = \<lparr>Containers = map (\<lambda>n. \<lparr>Name = n\<rparr>) names\<rparr>\<rparr>"

definition example_Decode :: "Pod \<Rightarrow> bytes \<Rightarrow> error + Pod" where
  "example_Decode p raw =
     (if raw = ''{pod}'' then Inr p else Inl (errorString ''unexpected end of JSON input''))"

definition ghost_pod :: Pod where
  "ghost_pod =
     example_pod
       [(''aic.4paradigm.com/app'', ''true''),
        (''aic.4paradigm.com/computeunit/ghost'', ''single-core'')]
       [''web'']"

definition matched_pod :: Pod where
  "matched_pod =
     example_pod
       [(''aic.4paradigm.com/app'', ''true''),
        (''aic.4paradigm.com/computeunit/a'', ''single-core'')]
       [''a'', ''sidecar'']"

definition plain_pod :: Pod where
  "plain_pod =
     example_pod
       [(''aic.4paradigm.com/app'', ''yes''),
        (''aic.4paradigm.com/computeunit/ghost'', ''single-core'')]
       [''web'']"

section \<open>Facts about the two loops\<close>

lemma HasPrefix_append: "HasPrefix (prefix @ rest) prefix"
  by (simp add: HasPrefix_def)

lemma TrimPrefix_append: "TrimPrefix (prefix @ rest) prefix = rest"
  by (simp add: TrimPrefix_def HasPrefix_def)

lemma HasPrefix_split: "HasPrefix s prefix \<Longrightarrow> s = prefix @ TrimPrefix s prefix"
  by (simp add: TrimPrefix_def HasPrefix_def) (metis append_take_drop_id)

lemma legal_order_set: "legal_order range_order \<Longrightarrow> set (range_order m) = set m"
  unfolding legal_order_def by (metis set_mset_mset)

text \<open>Neither loop body assigns to the decoded pod or to \<open>patches\<close>.\<close>

lemma pod_collect_step: "pod (collect_step kv s) = pod s"
  by (simp add: collect_step_def Let_def split: prod.splits)

lemma pod_claim_step: "pod (claim_step c s) = pod s"
  by (simp add: claim_step_def split: option.splits)

lemma pod_fold_collect: "pod (fold collect_step kvs s) = pod s"
  by (induction kvs arbitrary: s) (simp_all add: pod_collect_step)

lemma pod_fold_claim: "pod (fold claim_step cs s) = pod s"
  by (induction cs arbitrary: s) (simp_all add: pod_claim_step)

lemma patches_collect_step: "patches (collect_step kv s) = patches s"
  by (simp add: collect_step_def Let_def split: prod.splits)

lemma patches_claim_step: "patches (claim_step c s) = patches s"
  by (simp add: claim_step_def split: option.splits)

lemma patches_fold_collect: "patches (fold collect_step kvs s) = patches s"
  by (induction kvs arbitrary: s) (simp_all add: patches_collect_step)

lemma patches_fold_claim: "patches (fold claim_step cs s) = patches s"
  by (induction cs arbitrary: s) (simp_all add: patches_claim_step)

lemma patches_run_loops: "patches (run_loops range_order p) = []"
  by (simp add: run_loops_def Let_def patches_fold_claim patches_fold_collect
      init_locals_def)

text \<open>The keys of the working map: what the first loop adds, what the second removes.\<close>

lemma keys_collect_step:
  "fst ` set (containerComputeunitMap (collect_step (k, v) s)) =
     fst ` set (containerComputeunitMap s) \<union> {name. computeunit_prefix @ name = k}"
proof (cases "HasPrefix k computeunit_prefix")
  case True
  then have "k = computeunit_prefix @ TrimPrefix k computeunit_prefix"
    by (rule HasPrefix_split)
  then have "{name. computeunit_prefix @ name = k} = {TrimPrefix k computeunit_prefix}"
    by auto
  with True show ?thesis
    by (simp add: collect_step_def Let_def dom_update)
next
  case False
  then have "{name. computeunit_prefix @ name = k} = {}"
    using HasPrefix_append by auto
  with False show ?thesis
    by (simp add: collect_step_def)
qed

lemma keys_fold_collect:
  "fst ` set (containerComputeunitMap (fold collect_step kvs s)) =
     fst ` set (containerComputeunitMap s)
       \<union> {name. computeunit_prefix @ name \<in> fst ` set kvs}"
proof (induction kvs arbitrary: s)
  case Nil
  show ?case by simp
next
  case (Cons kv kvs)
  obtain k v where kv: "kv = (k, v)" by (cases kv)
  show ?case
    unfolding kv by (simp add: Cons.IH keys_collect_step) blast
qed

lemma keys_claim_step:
  "fst ` set (containerComputeunitMap (claim_step c s)) =
     fst ` set (containerComputeunitMap s) - {Name c}"
proof (cases "map_of (containerComputeunitMap s) (Name c)")
  case None
  then have "Name c \<notin> fst ` set (containerComputeunitMap s)"
    by (simp add: map_of_eq_None_iff)
  with None show ?thesis by (simp add: claim_step_def)
next
  case (Some computeunit)
  have "set (map fst (AList.delete (Name c) (containerComputeunitMap s))) =
          set (map fst (containerComputeunitMap s)) - {Name c}"
    by (simp only: delete_keys set_removeAll)
  with Some show ?thesis by (simp add: claim_step_def)
qed

lemma keys_fold_claim:
  "fst ` set (containerComputeunitMap (fold claim_step cs s)) =
     fst ` set (containerComputeunitMap s) - Name ` set cs"
  by (induction cs arbitrary: s) (auto simp: keys_claim_step)

lemma keys_run_loops:
  assumes "legal_order range_order"
  shows "fst ` set (containerComputeunitMap (run_loops range_order p)) =
           {name. computeunit_prefix @ name \<in> fst ` set (Annotations p)}
             - Name ` set (Containers (Spec p))"
  using legal_order_set [OF assms]
  by (simp add: run_loops_def Let_def keys_fold_claim keys_fold_collect pod_fold_collect
      init_locals_def)

text \<open>
  The emptiness test after the loops does not depend on the order in which the
  annotations were visited.
\<close>

lemma leftover_iff:
  assumes "legal_order range_order"
  shows "containerComputeunitMap (run_loops range_order p) = [] \<longleftrightarrow>
           (\<forall>name. computeunit_prefix @ name \<in> fst ` set (Annotations p)
                   \<longrightarrow> name \<in> Name ` set (Containers (Spec p)))"
proof -
  have "containerComputeunitMap (run_loops range_order p) = [] \<longleftrightarrow>
          fst ` set (containerComputeunitMap (run_loops range_order p)) = {}"
    by simp
  also have "\<dots> \<longleftrightarrow> (\<forall>name. computeunit_prefix @ name \<in> fst ` set (Annotations p)
                   \<longrightarrow> name \<in> Name ` set (Containers (Spec p)))"
    unfolding keys_run_loops [OF assms] by blast
  finally show ?thesis .
qed

lemma order_irrelevant:
  assumes "legal_order range_order" and "legal_order range_order'"
  shows "applySecurityDefaults range_order Decode req =
           applySecurityDefaults range_order' Decode req"
  by (auto simp: applySecurityDefaults_def Let_def leftover_iff [OF assms(1)]
      leftover_iff [OF assms(2)] patches_run_loops split: sum.splits)

lemma legal_order_id: "legal_order (\<lambda>m. m)"
  by (simp add: legal_order_def)

lemma legal_order_rev: "legal_order rev"
  by (simp add: legal_order_def)

lemma certPath: "filepath_Join [tlsDir, tlsCertFile] = ''/run/secrets/tls/tls.crt''"
  by (simp add: filepath_Join_def Clean_def tlsDir_def tlsCertFile_def)

lemma keyPath: "filepath_Join [tlsDir, tlsKeyFile] = ''/run/secrets/tls/tls.key''"
  by (simp add: filepath_Join_def Clean_def tlsDir_def tlsKeyFile_def)

section \<open>Properties of the decision function\<close>

text \<open>
  C1. A pod that carries the activation annotation with the value \<open>true\<close> and an
  annotation \<open>aic.4paradigm.com/computeunit/<name>\<close> for which no container is called
  \<open><name>\<close> is rejected, in whatever order the annotations are visited: the function
  returns a nil patch list and the error whose message is \<open>unexpected computeunit\<close>,
  the text with which the code speaks of a compute-unit reference that no container
  claims. Such an annotation is never passed over in silence.
\<close>

theorem applySecurityDefaults_unmatched_computeunit:
  assumes "legal_order range_order"
    and "ResourceGVR req = podResource"
    and "Decode (Raw (Object req)) = Inr p"
    and "map_of (Annotations p) app_key = Some ''true''"
    and "computeunit_prefix @ name \<in> fst ` set (Annotations p)"
    and "name \<notin> Name ` set (Containers (Spec p))"
  shows "applySecurityDefaults range_order Decode req =
           ([DecodeCall (Raw (Object req))], [],
            Some (errorString ''unexpected computeunit''))"
proof -
  have "containerComputeunitMap (run_loops range_order p) \<noteq> []"
    using assms(5,6) unfolding leftover_iff [OF assms(1)] by blast
  with assms(2,3,4) show ?thesis
    by (simp add: applySecurityDefaults_def index_or_zero_def errors_New_def)
qed

theorem applySecurityDefaults_unmatched_computeunit_witness:
  "legal_order rev
   \<and> ResourceGVR (example_request ''uid-1'' podResource ''{pod}'') = podResource
   \<and> example_Decode ghost_pod (Raw (Object (example_request ''uid-1'' podResource ''{pod}'')))
       = Inr ghost_pod
   \<and> map_of (Annotations ghost_pod) app_key = Some ''true''
   \<and> computeunit_prefix @ ''ghost'' \<in> fst ` set (Annotations ghost_pod)
   \<and> ''ghost'' \<notin> Name ` set (Containers (Spec ghost_pod))
   \<and> applySecurityDefaults rev (example_Decode ghost_pod)
        (example_request ''uid-1'' podResource ''{pod}'')
      = ([DecodeCall ''{pod}''], [], Some (errorString ''unexpected computeunit''))"
proof -
  have h1: "ResourceGVR (example_request ''uid-1'' podResource ''{pod}'') = podResource"
    by (simp add: example_request_def)
  have h2: "example_Decode ghost_pod
              (Raw (Object (example_request ''uid-1'' podResource ''{pod}''))) = Inr ghost_pod"
    by (simp add: example_request_def example_Decode_def)
  have h3: "map_of (Annotations ghost_pod) app_key = Some ''true''"
    by (simp add: ghost_pod_def example_pod_def app_key_def)
  have h4: "computeunit_prefix @ ''ghost'' \<in> fst ` set (Annotations ghost_pod)"
    by (simp add: ghost_pod_def example_pod_def computeunit_prefix_def)
  have h5: "''ghost'' \<notin> Name ` set (Containers (Spec ghost_pod))"
    by (simp add: ghost_pod_def example_pod_def)
  show ?thesis
    using legal_order_rev h1 h2 h3 h4 h5
      applySecurityDefaults_unmatched_computeunit
        [where req = "example_request ''uid-1'' podResource ''{pod}''" and range_order = rev
           and Decode = "example_Decode ghost_pod" and p = ghost_pod and name = "''ghost''"]
    by (simp add: example_request_def)
qed

text \<open>
  C2. A request whose resource descriptor is not the pod resource is let through: the
  function returns a nil patch list and a nil error whatever the raw bytes are and
  whatever the deserializer would make of them. All it does is write the log line; the
  deserializer is not called.
\<close>

theorem applySecurityDefaults_other_resource:
  assumes "ResourceGVR req \<noteq> podResource"
  shows "applySecurityDefaults range_order Decode req =
           ([LogPrintf ''expect resource to be %s'' podResource], [], None)"
  using assms by (simp add: applySecurityDefaults_def)

theorem applySecurityDefaults_other_resource_witness:
  "ResourceGVR (example_request ''uid-2''
       \<lparr>Group = ''apps'', Version = ''v1'', Resource = ''deployments''\<rparr> ''not a pod'')
     \<noteq> podResource
   \<and> applySecurityDefaults rev (example_Decode plain_pod)
        (example_request ''uid-2''
           \<lparr>Group = ''apps'', Version = ''v1'', Resource = ''deployments''\<rparr> ''not a pod'')
      = ([LogPrintf ''expect resource to be %s'' podResource], [], None)"
proof -
  have h: "ResourceGVR (example_request ''uid-2''
               \<lparr>Group = ''apps'', Version = ''v1'', Resource = ''deployments''\<rparr> ''not a pod'')
             \<noteq> podResource"
    by (simp add: example_request_def podResource_def)
  show ?thesis
    using h applySecurityDefaults_other_resource
        [where req = "example_request ''uid-2''
                        \<lparr>Group = ''apps'', Version = ''v1'', Resource = ''deployments''\<rparr>
                        ''not a pod''"
           and range_order = rev and Decode = "example_Decode plain_pod"]
    by simp
qed

text \<open>
  C3. A pod, on the pod resource, whose annotations lack the activation key or carry it
  with any value other than \<open>true\<close> bypasses the policy: the function returns a nil
  patch list and a nil error.
\<close>

theorem applySecurityDefaults_not_activated:
  assumes "ResourceGVR req = podResource"
    and "Decode (Raw (Object req)) = Inr p"
    and "map_of (Annotations p) app_key \<noteq> Some ''true''"
  shows "applySecurityDefaults range_order Decode req =
           ([DecodeCall (Raw (Object req))], [], None)"
  using assms
  by (auto simp: applySecurityDefaults_def index_or_zero_def split: option.splits)

theorem applySecurityDefaults_not_activated_witness:
  "ResourceGVR (example_request ''uid-3'' podResource ''{pod}'') = podResource
   \<and> example_Decode plain_pod (Raw (Object (example_request ''uid-3'' podResource ''{pod}'')))
       = Inr plain_pod
   \<and> map_of (Annotations plain_pod) app_key \<noteq> Some ''true''
   \<and> applySecurityDefaults rev (example_Decode plain_pod)
        (example_request ''uid-3'' podResource ''{pod}'')
      = ([DecodeCall ''{pod}''], [], None)"
proof -
  have h1: "ResourceGVR (example_request ''uid-3'' podResource ''{pod}'') = podResource"
    by (simp add: example_request_def)
  have h2: "example_Decode plain_pod
              (Raw (Object (example_request ''uid-3'' podResource ''{pod}''))) = Inr plain_pod"
    by (simp add: example_request_def example_Decode_def)
  have h3: "map_of (Annotations plain_pod) app_key \<noteq> Some ''true''"
    by (simp add: plain_pod_def example_pod_def app_key_def)
  show ?thesis
    using h1 h2 h3 applySecurityDefaults_not_activated
        [where req = "example_request ''uid-3'' podResource ''{pod}''" and range_order = rev
           and Decode = "example_Decode plain_pod" and p = plain_pod]
    by (simp add: example_request_def)
qed

text \<open>
  C4. A pod with the activation annotation \<open>true\<close> in which every annotation key
  \<open>aic.4paradigm.com/computeunit/<name>\<close> has a container called \<open><name>\<close> is accepted:
  the function returns a nil error (and a nil patch list). Nothing is asked of the
  containers, so a container without a compute-unit annotation never makes it fail.
\<close>

theorem applySecurityDefaults_all_matched:
  assumes "legal_order range_order"
    and "ResourceGVR req = podResource"
    and "Decode (Raw (Object req)) = Inr p"
    and "map_of (Annotations p) app_key = Some ''true''"
    and "\<forall>name. computeunit_prefix @ name \<in> fst ` set (Annotations p)
                 \<longrightarrow> name \<in> Name ` set (Containers (Spec p))"
  shows "applySecurityDefaults range_order Decode req =
           ([DecodeCall (Raw (Object req))], [], None)"
proof -
  have "containerComputeunitMap (run_loops range_order p) = []"
    using assms(5) unfolding leftover_iff [OF assms(1)] .
  with assms(2,3,4) show ?thesis
    by (simp add: applySecurityDefaults_def index_or_zero_def patches_run_loops)
qed

theorem applySecurityDefaults_all_matched_witness:
  "legal_order rev
   \<and> ResourceGVR (example_request ''uid-4'' podResource ''{pod}'') = podResource
   \<and> example_Decode matched_pod (Raw (Object (example_request ''uid-4'' podResource ''{pod}'')))
       = Inr matched_pod
   \<and> map_of (Annotations matched_pod) app_key = Some ''true''
   \<and> {name. computeunit_prefix @ name \<in> fst ` set (Annotations matched_pod)}
       \<subseteq> Name ` set (Containers (Spec matched_pod))
   \<and> ''sidecar'' \<in> Name ` set (Containers (Spec matched_pod))
   \<and> computeunit_prefix @ ''sidecar'' \<notin> fst ` set (Annotations matched_pod)
   \<and> applySecurityDefaults rev (example_Decode matched_pod)
        (example_request ''uid-4'' podResource ''{pod}'')
      = ([DecodeCall ''{pod}''], [], None)"
proof -
  have h1: "ResourceGVR (example_request ''uid-4'' podResource ''{pod}'') = podResource"
    by (simp add: example_request_def)
  have h2: "example_Decode matched_pod
              (Raw (Object (example_request ''uid-4'' podResource ''{pod}''))) = Inr matched_pod"
    by (simp add: example_request_def example_Decode_def)
  have h3: "map_of (Annotations matched_pod) app_key = Some ''true''"
    by (simp add: matched_pod_def example_pod_def app_key_def)
  have h4: "\<forall>name. computeunit_prefix @ name \<in> fst ` set (Annotations matched_pod)
               \<longrightarrow> name \<in> Name ` set (Containers (Spec matched_pod))"
    by (simp add: matched_pod_def example_pod_def computeunit_prefix_def)
  have h5: "''sidecar'' \<in> Name ` set (Containers (Spec matched_pod))"
    by (simp add: matched_pod_def example_pod_def)
  have h6: "computeunit_prefix @ ''sidecar'' \<notin> fst ` set (Annotations matched_pod)"
    by (simp add: matched_pod_def example_pod_def computeunit_prefix_def)
  from h4 have h4': "{name. computeunit_prefix @ name \<in> fst ` set (Annotations matched_pod)}
       \<subseteq> Name ` set (Containers (Spec matched_pod))"
    by blast
  have "applySecurityDefaults rev (example_Decode matched_pod)
          (example_request ''uid-4'' podResource ''{pod}'')
        = ([DecodeCall ''{pod}''], [], None)"
    using legal_order_rev h1 h2 h3 h4
      applySecurityDefaults_all_matched
        [where req = "example_request ''uid-4'' podResource ''{pod}''" and range_order = rev
           and Decode = "example_Decode matched_pod" and p = matched_pod]
    by (simp add: example_request_def)
  with legal_order_rev h1 h2 h3 h4' h5 h6 show ?thesis
    by (intro conjI)
qed

text \<open>
  C5. No patch operation is ever produced: for every iteration order, deserializer and
  request the patch list that the function returns is nil, in particular whenever it
  returns a nil error. The variable \<open>patches\<close> is declared and returned, and nothing is
  appended to it in between.
\<close>

theorem applySecurityDefaults_no_patch:
  "fst (snd (applySecurityDefaults range_order Decode req)) = []"
  by (simp add: applySecurityDefaults_def Let_def patches_run_loops split: sum.splits)

text \<open>
  C6. Two invocations on the same request, with the same deserializer, yield the same
  events, the same patch list and the same error, even though the runtime may visit the
  annotations in a different order each time.
\<close>

theorem applySecurityDefaults_deterministic:
  assumes "legal_order range_order" and "legal_order range_order'"
  shows "applySecurityDefaults range_order Decode req =
           applySecurityDefaults range_order' Decode req"
  using assms by (rule order_irrelevant)

theorem applySecurityDefaults_deterministic_witness:
  "legal_order (\<lambda>m. m) \<and> legal_order rev
   \<and> applySecurityDefaults (\<lambda>m. m) (example_Decode ghost_pod)
        (example_request ''uid-6'' podResource ''{pod}'')
      = applySecurityDefaults rev (example_Decode ghost_pod)
          (example_request ''uid-6'' podResource ''{pod}'')"
  using legal_order_id legal_order_rev
    applySecurityDefaults_deterministic [OF legal_order_id legal_order_rev]
  by simp

text \<open>
  C7. The decoded pod is not changed by the evaluation: after both loops the variable
  \<open>pod\<close>, and with it the annotations map, holds the value it was decoded to. Entries
  are added and deleted only in the working map \<open>containerComputeunitMap\<close>, which the
  function allocates empty for itself.
\<close>

theorem run_loops_frame:
  "pod (run_loops range_order p) = p \<and> containerComputeunitMap (init_locals p) = []"
  by (simp add: run_loops_def Let_def pod_fold_claim pod_fold_collect init_locals_def)

text \<open>
  C8. The outcome depends on the request only through its resource descriptor and the
  raw bytes of its object: two requests that agree on these two fields, and differ in
  any other field, yield the same events, patch list and error. The events are log
  lines and calls of the deserializer, nothing else.
\<close>

theorem applySecurityDefaults_noninterference:
  assumes "legal_order range_order" and "legal_order range_order'"
    and "ResourceGVR req = ResourceGVR req'"
    and "Raw (Object req) = Raw (Object req')"
  shows "applySecurityDefaults range_order Decode req =
           applySecurityDefaults range_order' Decode req'"
proof -
  have "applySecurityDefaults range_order Decode req =
          applySecurityDefaults range_order Decode req'"
    using assms(3,4) by (simp add: applySecurityDefaults_def)
  also have "\<dots> = applySecurityDefaults range_order' Decode req'"
    using assms(1,2) by (rule order_irrelevant)
  finally show ?thesis .
qed

theorem applySecurityDefaults_noninterference_witness:
  "legal_order (\<lambda>m. m) \<and> legal_order rev
   \<and> ResourceGVR (example_request ''uid-7'' podResource ''{pod}'')
       = ResourceGVR ((example_request ''uid-8'' podResource ''{pod}'')
           \<lparr>Operation := ''UPDATE'', UserInfo := ''mallory'', Namespace := ''kube-system''\<rparr>)
   \<and> Raw (Object (example_request ''uid-7'' podResource ''{pod}''))
       = Raw (Object ((example_request ''uid-8'' podResource ''{pod}'')
           \<lparr>Operation := ''UPDATE'', UserInfo := ''mallory'', Namespace := ''kube-system''\<rparr>))
   \<and> example_request ''uid-7'' podResource ''{pod}''
       \<noteq> (example_request ''uid-8'' podResource ''{pod}'')
           \<lparr>Operation := ''UPDATE'', UserInfo := ''mallory'', Namespace := ''kube-system''\<rparr>
   \<and> applySecurityDefaults (\<lambda>m. m) (example_Decode ghost_pod)
        (example_request ''uid-7'' podResource ''{pod}'')
      = applySecurityDefaults rev (example_Decode ghost_pod)
          ((example_request ''uid-8'' podResource ''{pod}'')
             \<lparr>Operation := ''UPDATE'', UserInfo := ''mallory'', Namespace := ''kube-system''\<rparr>)"
proof -
  have h1: "ResourceGVR (example_request ''uid-7'' podResource ''{pod}'')
       = ResourceGVR ((example_request ''uid-8'' podResource ''{pod}'')
           \<lparr>Operation := ''UPDATE'', UserInfo := ''mallory'', Namespace := ''kube-system''\<rparr>)"
    by (simp add: example_request_def)
  have h2: "Raw (Object (example_request ''uid-7'' podResource ''{pod}''))
       = Raw (Object ((example_request ''uid-8'' podResource ''{pod}'')
           \<lparr>Operation := ''UPDATE'', UserInfo := ''mallory'', Namespace := ''kube-system''\<rparr>))"
    by (simp add: example_request_def)
  have h3: "example_request ''uid-7'' podResource ''{pod}''
       \<noteq> (example_request ''uid-8'' podResource ''{pod}'')
           \<lparr>Operation := ''UPDATE'', UserInfo := ''mallory'', Namespace := ''kube-system''\<rparr>"
    by (simp add: example_request_def)
  show ?thesis
    using legal_order_id legal_order_rev h1 h2 h3
      applySecurityDefaults_noninterference [OF legal_order_id legal_order_rev h1 h2]
    by simp
qed

text \<open>
  C10. On the pod resource, raw bytes that the deserializer rejects make the function
  return a nil patch list and an error whose message is \<open>could not deserialize pod
  object: \<close> followed by the deserializer's message. The deserializer has been called;
  the request is neither approved nor passed over.
\<close>

theorem applySecurityDefaults_decode_error:
  assumes "ResourceGVR req = podResource"
    and "Decode (Raw (Object req)) = Inl err"
  shows "applySecurityDefaults range_order Decode req =
           ([DecodeCall (Raw (Object req))], [],
            Some (errorString (''could not deserialize pod object: '' @ Error err)))"
  using assms by (simp add: applySecurityDefaults_def fmt_Errorf_v_def)

theorem applySecurityDefaults_decode_error_witness:
  "ResourceGVR (example_request ''uid-10'' podResource ''{po'') = podResource
   \<and> example_Decode plain_pod (Raw (Object (example_request ''uid-10'' podResource ''{po'')))
       = Inl (errorString ''unexpected end of JSON input'')
   \<and> applySecurityDefaults rev (example_Decode plain_pod)
        (example_request ''uid-10'' podResource ''{po'')
      = ([DecodeCall ''{po''], [],
         Some (errorString
           ''could not deserialize pod object: unexpected end of JSON input''))"
proof -
  have h1: "ResourceGVR (example_request ''uid-10'' podResource ''{po'') = podResource"
    by (simp add: example_request_def)
  have h2: "example_Decode plain_pod
              (Raw (Object (example_request ''uid-10'' podResource ''{po'')))
              = Inl (errorString ''unexpected end of JSON input'')"
    by (simp add: example_request_def example_Decode_def)
  show ?thesis
    using h1 h2 applySecurityDefaults_decode_error
        [where req = "example_request ''uid-10'' podResource ''{po''" and range_order = rev
           and Decode = "example_Decode plain_pod"
           and err = "errorString ''unexpected end of JSON input''"]
    by (simp add: example_request_def)
qed

section \<open>Properties of the server bootstrap\<close>

text \<open>
  C9. \<open>main\<close> registers the decision function under the one pattern \<open>/mutate\<close>, and
  its only call into the network is \<open>ListenAndServeTLS\<close> on a server with the address
  \<open>:8443\<close>, with the certificate file \<open>/run/secrets/tls/tls.crt\<close> and the key file
  \<open>/run/secrets/tls/tls.key\<close>. When that call returns an error, as it does when the
  listener cannot be started, the process ends in \<open>log.Fatal\<close> with this error; there
  is no other way of serving.
\<close>

theorem main_bootstrap:
  "main range_order Decode ListenAndServeTLS =
     (case ListenAndServeTLS
             \<lparr>Addr = '':8443'',
              Handler = [(''/mutate'',
                          admitFuncHandler (applySecurityDefaults range_order Decode))]\<rparr>
             ''/run/secrets/tls/tls.crt'' ''/run/secrets/tls/tls.key'' of
        None \<Rightarrow> Serving
      | Some err \<Rightarrow> Fatal err)"
  by (simp add: main_def certPath keyPath Handle_def NewServeMux_def)

end
